theory Spec2Isabelle
  imports Complex_Main
begin

section \<open>The knowledge engine of AgriPlan: builder.py and retriever.py\<close>

text \<open>
  The two modules under \<^verbatim>\<open>src/knowledge_engine\<close> build a FAISS index over the
  chunks of one text document (\<^verbatim>\<open>builder.build_vector_store\<close>) and answer a query
  with the chunks nearest to it (\<^verbatim>\<open>retriever.query_vector_store\<close>).

  Three libraries are called and are not part of the repository:
  \<^item> the text splitter (\<^verbatim>\<open>RecursiveCharacterTextSplitter.split_text\<close>) is a parameter
    \<open>splitter\<close>, a function from the document to its chunks;
  \<^item> the embedding model (\<^verbatim>\<open>SentenceTransformer.encode\<close>) is a parameter \<open>model\<close>,
    a function from one text to its vector; a batch is embedded text by text, in order;
  \<^item> \<^verbatim>\<open>faiss.IndexFlatL2\<close> is modelled below as the exhaustive scan it performs.

  Floating-point numbers are abstracted to rationals: distances are exact.
\<close>

subsection \<open>Python exceptions\<close>

text \<open>Each constructor is the exception class, with the message where the source gives one.\<close>

datatype error =
    AssertionError string
  | FileNotFoundError string
  | IndexError string
  | UnicodeDecodeError
  | RuntimeError string
  | UnpicklingError
  | OSError

subsection \<open>Vectors and the flat L2 index\<close>

type_synonym vec = "rat list"

text \<open>\<^verbatim>\<open>faiss.IndexFlatL2\<close>: the dimension \<open>d\<close> and the stored vectors, in insertion order.\<close>

record index_flat_l2 =
  dim_d :: nat
  xb :: "vec list"

definition ntotal :: "index_flat_l2 \<Rightarrow> nat" where
  "ntotal index = length (xb index)"

definition IndexFlatL2 :: "nat \<Rightarrow> index_flat_l2" where
  "IndexFlatL2 n = \<lparr>dim_d = n, xb = []\<rparr>"

text \<open>\<^verbatim>\<open>index.add(x)\<close>: the Python wrapper asserts that the rows have the index's dimension.\<close>

definition index_add :: "index_flat_l2 \<Rightarrow> vec list \<Rightarrow> error + index_flat_l2" where
  "index_add index x =
     (if list_all (\<lambda>v. length v = dim_d index) x
      then Inr (index\<lparr>xb := xb index @ x\<rparr>)
      else Inl (AssertionError []))"

text \<open>Squared Euclidean distance.\<close>

definition l2sqr :: "vec \<Rightarrow> vec \<Rightarrow> rat" where
  "l2sqr x y = sum_list (map (\<lambda>(a, b). (a - b) * (a - b)) (zip x y))"

text \<open>
  The result buffer of the scan holds (distance, label) pairs, nearest first. A candidate
  goes in front of the first kept result that is strictly farther, so a candidate at the
  same distance as a kept result stays behind it; the buffer then keeps its \<open>k\<close> best.
\<close>

fun insert_result :: "rat \<times> int \<Rightarrow> (rat \<times> int) list \<Rightarrow> (rat \<times> int) list" where
  "insert_result c [] = [c]"
| "insert_result c (r # rs) =
     (if fst c < fst r then c # r # rs else r # insert_result c rs)"

definition add_result :: "nat \<Rightarrow> rat \<times> int \<Rightarrow> (rat \<times> int) list \<Rightarrow> (rat \<times> int) list" where
  "add_result k c buf = take k (insert_result c buf)"

text \<open>The scan visits the stored vectors in insertion order; \<open>i\<close> is the label of the next one.\<close>

fun scan :: "nat \<Rightarrow> vec \<Rightarrow> int \<Rightarrow> vec list \<Rightarrow> (rat \<times> int) list \<Rightarrow> (rat \<times> int) list" where
  "scan k q i [] buf = buf"
| "scan k q i (v # vs) buf = scan k q (i + 1) vs (add_result k (l2sqr q v, i) buf)"

text \<open>
  \<^verbatim>\<open>D, I = index.search(x, k)\<close> for one query row; the model returns the label row
  \<^verbatim>\<open>I[0]\<close>, the only part the caller reads. The wrapper asserts the dimension and
  \<^verbatim>\<open>k > 0\<close>; missing results have the label \<open>-1\<close>.
\<close>

definition index_search :: "index_flat_l2 \<Rightarrow> vec \<Rightarrow> int \<Rightarrow> error + int list" where
  "index_search index q k =
     (if length q \<noteq> dim_d index then Inl (AssertionError [])
      else if k \<le> 0 then Inl (AssertionError [])
      else let res = scan (nat k) q 0 (xb index) []
           in Inr (map snd res @ replicate (nat k - length res) (- 1)))"

subsection \<open>The disk\<close>

text \<open>
  A file holds a text, a serialized index, a pickled chunk list, or the remains of a write
  that failed partway (both writers open their file for writing, truncating it, before
  they produce any content). \<open>failing\<close> lists the paths at which a write fails partway.
\<close>

datatype content =
    Text string
  | FaissIndex index_flat_l2
  | Pickle "string list"
  | Partial

record disk =
  files :: "string \<Rightarrow> content option"
  dirs :: "string set"
  failing :: "string set"

definition VECTOR_STORE_PATH :: string where
  "VECTOR_STORE_PATH = ''vector_db/agri_knowledge''"

definition TOP_K :: int where
  "TOP_K = 3"

definition os_path_join :: "string \<Rightarrow> string \<Rightarrow> string" where
  "os_path_join a b =
     (if b \<noteq> [] \<and> hd b = CHR ''/'' then b
      else if a = [] \<or> last a = CHR ''/'' then a @ b
      else a @ ''/'' @ b)"

definition os_path_exists :: "string \<Rightarrow> disk \<Rightarrow> bool" where
  "os_path_exists p fs = (files fs p \<noteq> None \<or> p \<in> dirs fs)"

definition endswith :: "string \<Rightarrow> string \<Rightarrow> bool" where
  "endswith s suffix =
     (length suffix \<le> length s \<and> drop (length s - length suffix) s = suffix)"

text \<open>The directories \<^verbatim>\<open>os.makedirs(p, exist_ok=True)\<close> creates: \<open>p\<close> and its ancestors.\<close>

fun path_prefixes :: "string \<Rightarrow> string \<Rightarrow> string list" where
  "path_prefixes acc [] = (if acc = [] then [] else [acc])"
| "path_prefixes acc (c # cs) =
     (if c = CHR ''/'' \<and> acc \<noteq> [] then acc # path_prefixes (acc @ [c]) cs
      else path_prefixes (acc @ [c]) cs)"

definition os_makedirs :: "string \<Rightarrow> disk \<Rightarrow> disk" where
  "os_makedirs p fs = fs\<lparr>dirs := dirs fs \<union> set (path_prefixes [] p)\<rparr>"

definition write_file :: "string \<Rightarrow> content \<Rightarrow> error \<Rightarrow> disk \<Rightarrow> (error + unit) \<times> disk" where
  "write_file p c e fs =
     (if p \<in> failing fs then (Inl e, fs\<lparr>files := (files fs)(p \<mapsto> Partial)\<rparr>)
      else (Inr (), fs\<lparr>files := (files fs)(p \<mapsto> c)\<rparr>))"

definition faiss_write_index :: "index_flat_l2 \<Rightarrow> string \<Rightarrow> disk \<Rightarrow> (error + unit) \<times> disk" where
  "faiss_write_index index p fs = write_file p (FaissIndex index) (RuntimeError []) fs"

definition pickle_dump :: "string list \<Rightarrow> string \<Rightarrow> disk \<Rightarrow> (error + unit) \<times> disk" where
  "pickle_dump chunks p fs = write_file p (Pickle chunks) OSError fs"

definition faiss_read_index :: "string \<Rightarrow> disk \<Rightarrow> error + index_flat_l2" where
  "faiss_read_index p fs =
     (case files fs p of
        Some (FaissIndex index) \<Rightarrow> Inr index
      | _ \<Rightarrow> Inl (RuntimeError []))"

definition pickle_load :: "string \<Rightarrow> disk \<Rightarrow> error + string list" where
  "pickle_load p fs =
     (case files fs p of
        None \<Rightarrow> Inl (FileNotFoundError ''No such file or directory'')
      | Some (Pickle chunks) \<Rightarrow> Inr chunks
      | Some _ \<Rightarrow> Inl UnpicklingError)"

subsection \<open>builder.py\<close>

definition load_txt :: "string \<Rightarrow> disk \<Rightarrow> error + string" where
  "load_txt filepath fs =
     (case files fs filepath of
        None \<Rightarrow> Inl (FileNotFoundError ''No such file or directory'')
      | Some (Text s) \<Rightarrow> Inr s
      | Some _ \<Rightarrow> Inl UnicodeDecodeError)"

text \<open>\<^verbatim>\<open>model.encode(chunks)\<close>: one vector per text, in the order of the texts.\<close>

definition model_encode :: "(string \<Rightarrow> vec) \<Rightarrow> string list \<Rightarrow> vec list" where
  "model_encode model texts = map model texts"

text \<open>
  Lines 41 and 42 of builder.py: \<^verbatim>\<open>index = faiss.IndexFlatL2(len(embeddings[0]))\<close>, then
  \<^verbatim>\<open>index.add(embeddings)\<close>. \<^verbatim>\<open>embeddings[0]\<close> raises IndexError on an empty array.
\<close>

definition build_faiss_index :: "vec list \<Rightarrow> error + index_flat_l2" where
  "build_faiss_index embeddings =
     (case embeddings of
        [] \<Rightarrow> Inl (IndexError ''index 0 is out of bounds for axis 0 with size 0'')
      | e0 # _ \<Rightarrow> index_add (IndexFlatL2 (length e0)) embeddings)"

definition build_vector_store ::
  "(string \<Rightarrow> string list) \<Rightarrow> (string \<Rightarrow> vec) \<Rightarrow> string \<Rightarrow> disk \<Rightarrow> (error + unit) \<times> disk" where
  "build_vector_store splitter model file_path fs =
     (if \<not> endswith file_path ''.txt''
      then (Inl (AssertionError ''Currently only TXT format uploads are supported''), fs)
      else case load_txt file_path fs of
        Inl e \<Rightarrow> (Inl e, fs)
      | Inr raw_text \<Rightarrow>
          let chunks = splitter raw_text;
              embeddings = model_encode model chunks
          in case build_faiss_index embeddings of
               Inl e \<Rightarrow> (Inl e, fs)
             | Inr index \<Rightarrow>
                 let fs1 = os_makedirs VECTOR_STORE_PATH fs;
                     written = faiss_write_index index
                                 (os_path_join VECTOR_STORE_PATH ''index.faiss'') fs1
                 in case fst written of
                      Inl e \<Rightarrow> (Inl e, snd written)
                    | Inr u \<Rightarrow>
                        pickle_dump chunks (os_path_join VECTOR_STORE_PATH ''chunks.pkl'')
                          (snd written))"

subsection \<open>retriever.py\<close>

text \<open>\<^verbatim>\<open>chunks[i]\<close>: a negative index counts from the end; out of range raises IndexError.\<close>

definition py_index :: "'a list \<Rightarrow> int \<Rightarrow> error + 'a" where
  "py_index xs i =
     (if 0 \<le> i \<and> i < int (length xs) then Inr (xs ! nat i)
      else if i < 0 \<and> - int (length xs) \<le> i then Inr (xs ! nat (int (length xs) + i))
      else Inl (IndexError ''list index out of range''))"

text \<open>Line 34: \<^verbatim>\<open>[chunks[i] for i in I[0] if i < len(chunks)]\<close>.\<close>

fun materialise :: "string list \<Rightarrow> int list \<Rightarrow> error + string list" where
  "materialise chunks [] = Inr []"
| "materialise chunks (i # is) =
     (if i < int (length chunks)
      then (case py_index chunks i of
              Inl e \<Rightarrow> Inl e
            | Inr c \<Rightarrow> (case materialise chunks is of
                          Inl e \<Rightarrow> Inl e
                        | Inr rest \<Rightarrow> Inr (c # rest)))
      else materialise chunks is)"

text \<open>Lines 31 to 35, on the index and the chunk list in memory.\<close>

definition code_search ::
  "(string \<Rightarrow> vec) \<Rightarrow> index_flat_l2 \<Rightarrow> string list \<Rightarrow> string \<Rightarrow> int \<Rightarrow> error + string list" where
  "code_search model index chunks query top_k =
     (let query_vec = model query
      in case index_search index query_vec top_k of
           Inl e \<Rightarrow> Inl e
         | Inr I0 \<Rightarrow> materialise chunks I0)"

definition kb_not_built :: string where
  "kb_not_built =
     ''The knowledge base has not been built yet, please run builder.build_vector_store()''"

definition query_vector_store ::
  "(string \<Rightarrow> vec) \<Rightarrow> string \<Rightarrow> int \<Rightarrow> disk \<Rightarrow> error + string list" where
  "query_vector_store model query top_k fs =
     (let index_path = os_path_join VECTOR_STORE_PATH ''index.faiss'';
          chunk_path = os_path_join VECTOR_STORE_PATH ''chunks.pkl''
      in if \<not> os_path_exists index_path fs \<or> \<not> os_path_exists chunk_path fs
         then Inl (FileNotFoundError kb_not_built)
         else case faiss_read_index index_path fs of
                Inl e \<Rightarrow> Inl e
              | Inr index \<Rightarrow>
                  (case pickle_load chunk_path fs of
                     Inl e \<Rightarrow> Inl e
                   | Inr chunks \<Rightarrow> code_search model index chunks query top_k))"

subsection \<open>Notions used to state the properties\<close>

text \<open>
  The scan without the bound \<open>k\<close>: every candidate stays in the buffer. It serves to
  describe what the bounded scan keeps.
\<close>

fun scan_all :: "vec \<Rightarrow> int \<Rightarrow> vec list \<Rightarrow> (rat \<times> int) list \<Rightarrow> (rat \<times> int) list" where
  "scan_all q i [] buf = buf"
| "scan_all q i (v # vs) buf = scan_all q (i + 1) vs (insert_result (l2sqr q v, i) buf)"

text \<open>The order on results: the distance first, the label on equal distances.\<close>

definition before :: "rat \<times> int \<Rightarrow> rat \<times> int \<Rightarrow> bool" where
  "before a b = (fst a < fst b \<or> (fst a = fst b \<and> snd a < snd b))"


subsection \<open>Concrete collaborators and disks\<close>

text \<open>A splitter that cuts the text at blanks, and a model with two coordinates.\<close>

fun words_from :: "string \<Rightarrow> string \<Rightarrow> string list" where
  "words_from acc [] = (if acc = [] then [] else [acc])"
| "words_from acc (c # cs) =
     (if c = CHR '' '' then (if acc = [] then words_from [] cs else acc # words_from [] cs)
      else words_from (acc @ [c]) cs)"

definition demo_splitter :: "string \<Rightarrow> string list" where
  "demo_splitter text = words_from [] text"

definition demo_model :: "string \<Rightarrow> vec" where
  "demo_model s = [of_nat (length s), of_nat (length (filter (\<lambda>c. c = CHR ''b'') s))]"

definition demo_chunks :: "string list" where
  "demo_chunks = [''bb'', ''a'', ''ccc'']"

definition demo_index :: index_flat_l2 where
  "demo_index = \<lparr>dim_d = 2, xb = [[2, 2], [1, 0], [3, 0]]\<rparr>"

definition doc_disk :: disk where
  "doc_disk = \<lparr>files = [''notes.txt'' \<mapsto> Text ''bb a ccc'', ''empty.txt'' \<mapsto> Text []],
                dirs = {}, failing = {}\<rparr>"

definition kb_disk :: disk where
  "kb_disk =
     \<lparr>files = [''notes.txt'' \<mapsto> Text ''bb a ccc'', ''empty.txt'' \<mapsto> Text [],
               ''vector_db/agri_knowledge/index.faiss'' \<mapsto> FaissIndex demo_index,
               ''vector_db/agri_knowledge/chunks.pkl'' \<mapsto> Pickle demo_chunks],
      dirs = {''vector_db'', ''vector_db/agri_knowledge''}, failing = {}\<rparr>"





section \<open>Properties\<close>

subsection \<open>The paths\<close>

lemma index_path_eq:
  "os_path_join VECTOR_STORE_PATH ''index.faiss'' = ''vector_db/agri_knowledge/index.faiss''"
  by (simp add: os_path_join_def VECTOR_STORE_PATH_def)

lemma chunk_path_eq:
  "os_path_join VECTOR_STORE_PATH ''chunks.pkl'' = ''vector_db/agri_knowledge/chunks.pkl''"
  by (simp add: os_path_join_def VECTOR_STORE_PATH_def)

lemma makedirs_store_path:
  "set (path_prefixes [] VECTOR_STORE_PATH) = {''vector_db'', ''vector_db/agri_knowledge''}"
  by (simp add: VECTOR_STORE_PATH_def)

subsection \<open>The result buffer\<close>

lemma take_insert_result_take:
  "take k (insert_result c (take k xs)) = take k (insert_result c xs)"
  by (induction xs arbitrary: k) (auto simp: take_Cons split: nat.splits)

lemma set_insert_result: "set (insert_result c xs) = insert c (set xs)"
  by (induction xs) auto

lemma length_insert_result: "length (insert_result c xs) = Suc (length xs)"
  by (induction xs) auto

lemma sorted_insert_result:
  "sorted_wrt before buf \<Longrightarrow> \<forall>r\<in>set buf. snd r < snd c \<Longrightarrow>
   sorted_wrt before (insert_result c buf)"
  by (induction buf) (auto simp: set_insert_result before_def)

lemma scan_take: "scan k q i vs (take k buf) = take k (scan_all q i vs buf)"
  by (induction vs arbitrary: i buf) (simp_all add: add_result_def take_insert_result_take)

lemma length_scan_all: "length (scan_all q i vs buf) = length buf + length vs"
  by (induction vs arbitrary: i buf) (simp_all add: length_insert_result)

lemma candidates_Cons:
  "{(l2sqr q ((v # vs) ! j), i + int j) | j. j < length (v # vs)} =
   insert (l2sqr q v, i) {(l2sqr q (vs ! j), i + 1 + int j) | j. j < length vs}"
  (is "?L = ?R")
proof
  show "?L \<subseteq> ?R"
  proof
    fix x assume "x \<in> ?L"
    then obtain j where j: "j < length (v # vs)" "x = (l2sqr q ((v # vs) ! j), i + int j)"
      by blast
    show "x \<in> ?R"
    proof (cases j)
      case 0
      with j show ?thesis by simp
    next
      case (Suc j')
      with j have "j' < length vs" "x = (l2sqr q (vs ! j'), i + 1 + int j')" by simp_all
      then show ?thesis by blast
    qed
  qed
  show "?R \<subseteq> ?L"
  proof
    fix x assume "x \<in> ?R"
    then consider "x = (l2sqr q v, i)"
      | j where "j < length vs" "x = (l2sqr q (vs ! j), i + 1 + int j)"
      by blast
    then show "x \<in> ?L"
    proof cases
      case 1
      then have "0 < length (v # vs)" "x = (l2sqr q ((v # vs) ! 0), i + int 0)" by simp_all
      then show ?thesis by blast
    next
      case 2
      then have "Suc j < length (v # vs)"
        "x = (l2sqr q ((v # vs) ! Suc j), i + int (Suc j))" by simp_all
      then show ?thesis by blast
    qed
  qed
qed

lemma set_scan_all:
  "set (scan_all q i vs buf) =
   set buf \<union> {(l2sqr q (vs ! j), i + int j) | j. j < length vs}"
proof (induction vs arbitrary: i buf)
  case Nil
  then show ?case by simp
next
  case (Cons v vs)
  show ?case
    unfolding candidates_Cons by (simp add: Cons.IH set_insert_result)
qed

lemma sorted_scan_all:
  "sorted_wrt before buf \<Longrightarrow> \<forall>r\<in>set buf. snd r < i \<Longrightarrow>
   sorted_wrt before (scan_all q i vs buf)"
proof (induction vs arbitrary: i buf)
  case Nil
  then show ?case by simp
next
  case (Cons v vs)
  have s: "sorted_wrt before (insert_result (l2sqr q v, i) buf)"
    using Cons.prems by (intro sorted_insert_result) auto
  have "\<forall>r\<in>set (insert_result (l2sqr q v, i) buf). snd r < i + 1"
    using Cons.prems(2) by (auto simp: set_insert_result)
  with s show ?case by (simp add: Cons.IH)
qed


lemma before_irrefl: "\<not> before a a"
  by (simp add: before_def)

lemma sorted_before_distinct: "sorted_wrt before xs \<Longrightarrow> distinct xs"
  by (induction xs) (auto simp: before_irrefl)

subsection \<open>The ranking of the stored vectors\<close>

lemma ranking_facts:
  fixes index q
  defines "S \<equiv> scan_all q 0 (xb index) []"
  shows "length S = ntotal index"
    and "sorted_wrt before S"
    and "set S = {(l2sqr q (xb index ! j), int j) | j. j < ntotal index}"
  unfolding S_def ntotal_def
  by (simp_all add: length_scan_all sorted_scan_all set_scan_all)

lemma index_search_eq:
  "length q = dim_d index \<Longrightarrow> 1 \<le> k \<Longrightarrow>
   index_search index q k =
     Inr (map snd (take (nat k) (scan_all q 0 (xb index) [])) @
          replicate (nat k - ntotal index) (- 1))"
  using scan_take [of "nat k" q 0 "xb index" "[]"]
  by (simp add: index_search_def Let_def length_scan_all ntotal_def min_def)




lemma query_loaded:
  assumes "files fs ''vector_db/agri_knowledge/index.faiss'' = Some (FaissIndex index)"
    and "files fs ''vector_db/agri_knowledge/chunks.pkl'' = Some (Pickle chunks)"
  shows "query_vector_store model query k fs = code_search model index chunks query k"
  using assms
  by (simp add: query_vector_store_def index_path_eq chunk_path_eq os_path_exists_def
      faiss_read_index_def pickle_load_def)

subsection \<open>The outcomes of an ingestion run\<close>

lemma build_faiss_index_Inr:
  "build_faiss_index es = Inr index \<Longrightarrow> es \<noteq> [] \<and> index = \<lparr>dim_d = length (hd es), xb = es\<rparr>"
  by (cases es) (auto simp: build_faiss_index_def index_add_def IndexFlatL2_def split: if_splits)

lemma build_faiss_index_Nil:
  "build_faiss_index [] = Inl (IndexError ''index 0 is out of bounds for axis 0 with size 0'')"
  by (simp add: build_faiss_index_def)

lemma build_not_txt:
  "\<not> endswith p ''.txt'' \<Longrightarrow>
   build_vector_store splitter model p fs =
     (Inl (AssertionError ''Currently only TXT format uploads are supported''), fs)"
  by (simp add: build_vector_store_def)

lemma build_unreadable:
  "endswith p ''.txt'' \<Longrightarrow> load_txt p fs = Inl e \<Longrightarrow>
   build_vector_store splitter model p fs = (Inl e, fs)"
  by (simp add: build_vector_store_def)

lemma build_no_index:
  "endswith p ''.txt'' \<Longrightarrow> load_txt p fs = Inr text \<Longrightarrow>
   build_faiss_index (model_encode model (splitter text)) = Inl e \<Longrightarrow>
   build_vector_store splitter model p fs = (Inl e, fs)"
  by (simp add: build_vector_store_def)

lemma build_persist:
  assumes "endswith p ''.txt''" and "load_txt p fs = Inr text"
    and "build_faiss_index (model_encode model (splitter text)) = Inr index"
  shows "build_vector_store splitter model p fs =
     (if ''vector_db/agri_knowledge/index.faiss'' \<in> failing fs
      then (Inl (RuntimeError []),
            fs\<lparr>files := (files fs)(''vector_db/agri_knowledge/index.faiss'' \<mapsto> Partial),
               dirs := dirs fs \<union> {''vector_db'', ''vector_db/agri_knowledge''}\<rparr>)
      else if ''vector_db/agri_knowledge/chunks.pkl'' \<in> failing fs
      then (Inl OSError,
            fs\<lparr>files := (files fs)(''vector_db/agri_knowledge/index.faiss'' \<mapsto> FaissIndex index,
                                    ''vector_db/agri_knowledge/chunks.pkl'' \<mapsto> Partial),
               dirs := dirs fs \<union> {''vector_db'', ''vector_db/agri_knowledge''}\<rparr>)
      else (Inr (),
            fs\<lparr>files := (files fs)(''vector_db/agri_knowledge/index.faiss'' \<mapsto> FaissIndex index,
                                    ''vector_db/agri_knowledge/chunks.pkl'' \<mapsto> Pickle (splitter text)),
               dirs := dirs fs \<union> {''vector_db'', ''vector_db/agri_knowledge''}\<rparr>))"
  using assms
  by (simp add: build_vector_store_def Let_def index_path_eq chunk_path_eq
      faiss_write_index_def pickle_dump_def write_file_def os_makedirs_def makedirs_store_path)

lemma build_cases:
  assumes "build_vector_store splitter model p fs = (r, fs')"
  obtains (early) e where "r = Inl e" "fs' = fs"
      "\<not> endswith p ''.txt'' \<or> load_txt p fs = Inl e \<or>
       (\<exists>text. load_txt p fs = Inr text \<and>
          build_faiss_index (model_encode model (splitter text)) = Inl e)"
  | (persist) raw index where "endswith p ''.txt''" "load_txt p fs = Inr raw"
      "build_faiss_index (model_encode model (splitter raw)) = Inr index"
proof (cases "endswith p ''.txt''")
  case False
  with assms build_not_txt [OF False, of splitter model fs] show ?thesis
    by (intro early) auto
next
  case ext: True
  show ?thesis
  proof (cases "load_txt p fs")
    case (Inl e)
    with assms build_unreadable [OF ext Inl, of splitter model] show ?thesis
      by (intro early) auto
  next
    case (Inr raw)
    show ?thesis
    proof (cases "build_faiss_index (model_encode model (splitter raw))")
      case (Inl e)
      with assms build_no_index [of p fs raw model splitter e, OF ext Inr] Inr show ?thesis
        by (intro early) auto
    next
      case i: (Inr index)
      from ext Inr i show ?thesis by (rule persist)
    qed
  qed
qed

subsection \<open>What a query returns\<close>

lemma materialise_append:
  "materialise chunks xs = Inr a \<Longrightarrow> materialise chunks ys = Inr b \<Longrightarrow>
   materialise chunks (xs @ ys) = Inr (a @ b)"
  by (induction xs arbitrary: a) (auto split: if_splits sum.splits)

lemma materialise_positions:
  "materialise chunks (map int ps) = Inr (map ((!) chunks) (filter (\<lambda>p. p < length chunks) ps))"
  by (induction ps) (simp_all add: py_index_def)

lemma materialise_missing:
  "chunks \<noteq> [] \<Longrightarrow> materialise chunks (replicate n (- 1)) = Inr (replicate n (last chunks))"
proof (induction n)
  case 0
  then show ?case by simp
next
  case (Suc n)
  from Suc.prems have "nat (int (length chunks) - 1) = length chunks - 1"
    and "1 \<le> length chunks"
    by (cases chunks, simp_all)+
  with Suc show ?case
    by (simp add: py_index_def last_conv_nth)
qed

lemma full_ranking:
  "\<exists>ps. map snd (scan_all q 0 (xb index) []) = map int ps \<and>
        length ps = ntotal index \<and> set ps = {..<ntotal index}"
proof -
  define S where "S = scan_all q 0 (xb index) []"
  define ps where "ps = map (\<lambda>r. nat (snd r)) S"
  have lenS: "length S = ntotal index"
    and setS: "set S = {(l2sqr q (xb index ! j), int j) | j. j < ntotal index}"
    unfolding S_def by (rule ranking_facts)+
  have lab: "int (nat (snd r)) = snd r" if "r \<in> set S" for r
    using that unfolding setS by auto
  have 1: "map snd S = map int ps"
    unfolding ps_def map_map by (rule map_cong [OF refl]) (use lab in simp)
  have 2: "length ps = ntotal index"
    by (simp add: ps_def lenS)
  have "set ps = (\<lambda>r. nat (snd r)) ` {(l2sqr q (xb index ! j), int j) | j. j < ntotal index}"
    by (simp add: ps_def setS)
  also have "\<dots> = {..<ntotal index}"
  proof (intro set_eqI iffI)
    fix x assume "x \<in> (\<lambda>r. nat (snd r)) ` {(l2sqr q (xb index ! j), int j) | j. j < ntotal index}"
    then show "x \<in> {..<ntotal index}" by auto
  next
    fix x assume "x \<in> {..<ntotal index}"
    then have "(l2sqr q (xb index ! x), int x) \<in>
        {(l2sqr q (xb index ! j), int j) | j. j < ntotal index}" by blast
    then have "nat (snd (l2sqr q (xb index ! x), int x)) \<in>
        (\<lambda>r. nat (snd r)) ` {(l2sqr q (xb index ! j), int j) | j. j < ntotal index}"
      by (rule imageI)
    then show "x \<in> (\<lambda>r. nat (snd r)) ` {(l2sqr q (xb index ! j), int j) | j. j < ntotal index}"
      by simp
  qed
  finally have 3: "set ps = {..<ntotal index}" .
  from 1 2 3 show ?thesis unfolding S_def by blast
qed

lemma index_search_labels:
  assumes "length q = dim_d index" and "1 \<le> k"
  shows "\<exists>ps. index_search index q k =
                Inr (map int ps @ replicate (nat k - ntotal index) (- 1)) \<and>
              length ps = min (nat k) (ntotal index) \<and> set ps \<subseteq> {..<ntotal index} \<and>
              (ntotal index \<le> nat k \<longrightarrow> set ps = {..<ntotal index})"
proof -
  from full_ranking [of q index] obtain ps where
    ps: "map snd (scan_all q 0 (xb index) []) = map int ps"
    "length ps = ntotal index" "set ps = {..<ntotal index}"
    by blast
  have "map snd (take (nat k) (scan_all q 0 (xb index) [])) = map int (take (nat k) ps)"
    by (simp add: take_map [symmetric] ps(1))
  then have "index_search index q k =
      Inr (map int (take (nat k) ps) @ replicate (nat k - ntotal index) (- 1))"
    by (simp add: index_search_eq [OF assms])
  moreover have "length (take (nat k) ps) = min (nat k) (ntotal index)"
    by (simp add: ps(2))
  moreover have "set (take (nat k) ps) \<subseteq> {..<ntotal index}"
    using set_take_subset [of "nat k" ps] ps(3) by simp
  moreover have "ntotal index \<le> nat k \<longrightarrow> set (take (nat k) ps) = {..<ntotal index}"
    by (simp add: ps(2,3))
  ultimately show ?thesis by blast
qed

lemma code_search_result:
  assumes "length (model query) = dim_d index" and "1 \<le> k" and "chunks \<noteq> []"
  shows "\<exists>ps. length ps = min (nat k) (ntotal index) \<and> set ps \<subseteq> {..<ntotal index} \<and>
              (ntotal index \<le> nat k \<longrightarrow> set ps = {..<ntotal index}) \<and>
              index_search index (model query) k =
                Inr (map int ps @ replicate (nat k - ntotal index) (- 1)) \<and>
              code_search model index chunks query k =
                Inr (map ((!) chunks) (filter (\<lambda>p. p < length chunks) ps) @
                     replicate (nat k - ntotal index) (last chunks))"
proof -
  from index_search_labels [OF assms(1,2)] obtain ps where
    ps: "index_search index (model query) k =
           Inr (map int ps @ replicate (nat k - ntotal index) (- 1))"
      "length ps = min (nat k) (ntotal index)" "set ps \<subseteq> {..<ntotal index}"
      "ntotal index \<le> nat k \<longrightarrow> set ps = {..<ntotal index}"
    by blast
  have "materialise chunks (map int ps @ replicate (nat k - ntotal index) (- 1)) =
        Inr (map ((!) chunks) (filter (\<lambda>p. p < length chunks) ps) @
             replicate (nat k - ntotal index) (last chunks))"
    by (rule materialise_append [OF materialise_positions materialise_missing [OF assms(3)]])
  then have "code_search model index chunks query k =
                Inr (map ((!) chunks) (filter (\<lambda>p. p < length chunks) ps) @
                     replicate (nat k - ntotal index) (last chunks))"
    by (simp add: code_search_def ps(1))
  with ps show ?thesis by blast
qed

subsection \<open>Top-k search\<close>



subsection \<open>Ingestion\<close>

lemma demo_build:
  "build_vector_store demo_splitter demo_model ''notes.txt'' doc_disk = (Inr (), kb_disk)"
  by (simp add: build_vector_store_def endswith_def load_txt_def doc_disk_def kb_disk_def
      demo_splitter_def model_encode_def demo_model_def build_faiss_index_def index_add_def
      IndexFlatL2_def os_makedirs_def makedirs_store_path index_path_eq chunk_path_eq
      faiss_write_index_def pickle_dump_def write_file_def demo_index_def demo_chunks_def
      numeral_2_eq_2)

text \<open>
  Claim C2. After a successful run of \<open>build_vector_store\<close> the index file holds as many
  vectors as the chunk file holds chunks, and the vector at each position is the embedding
  of the chunk at that position.
\<close>

theorem positional_correspondence:
  assumes "build_vector_store splitter model p fs = (Inr (), fs')"
  shows "\<exists>index chunks.
           files fs' ''vector_db/agri_knowledge/index.faiss'' = Some (FaissIndex index) \<and>
           files fs' ''vector_db/agri_knowledge/chunks.pkl'' = Some (Pickle chunks) \<and>
           ntotal index = length chunks \<and>
           (\<forall>i<length chunks. xb index ! i = model (chunks ! i))"
  using assms
proof (cases rule: build_cases)
  case (early e)
  then show ?thesis by simp
next
  case (persist raw index)
  from build_faiss_index_Inr [OF persist(3)]
  have index: "index = \<lparr>dim_d = length (hd (map model (splitter raw))), xb = map model (splitter raw)\<rparr>"
    by (simp add: model_encode_def)
  from assms build_persist [of p fs raw model splitter index, OF persist]
  have "fs' = fs\<lparr>files := (files fs)(''vector_db/agri_knowledge/index.faiss'' \<mapsto> FaissIndex index,
                                    ''vector_db/agri_knowledge/chunks.pkl'' \<mapsto> Pickle (splitter raw)),
               dirs := dirs fs \<union> {''vector_db'', ''vector_db/agri_knowledge''}\<rparr>"
    by (simp split: if_splits)
  then have "files fs' ''vector_db/agri_knowledge/index.faiss'' = Some (FaissIndex index)"
    and "files fs' ''vector_db/agri_knowledge/chunks.pkl'' = Some (Pickle (splitter raw))"
    by simp_all
  moreover have "ntotal index = length (splitter raw)"
    and "\<forall>i<length (splitter raw). xb index ! i = model (splitter raw ! i)"
    by (simp_all add: index ntotal_def)
  ultimately show ?thesis by blast
qed

theorem positional_correspondence_witness:
  "build_vector_store demo_splitter demo_model ''notes.txt'' doc_disk = (Inr (), kb_disk) \<and>
   (\<exists>index chunks.
      files kb_disk ''vector_db/agri_knowledge/index.faiss'' = Some (FaissIndex index) \<and>
      files kb_disk ''vector_db/agri_knowledge/chunks.pkl'' = Some (Pickle chunks) \<and>
      ntotal index = length chunks \<and>
      (\<forall>i<length chunks. xb index ! i = demo_model (chunks ! i)))"
proof -
  have h: "build_vector_store demo_splitter demo_model ''notes.txt'' doc_disk = (Inr (), kb_disk)"
    by (rule demo_build)
  from positional_correspondence [OF h] h show ?thesis by blast
qed

text \<open>
  Claim C3. After a successful run of \<open>build_vector_store\<close>, \<open>query_vector_store\<close> on the
  resulting disk answers every query, for every \<open>k\<close>, as the search does on the index and
  the chunk list the run held in memory before it wrote them.
\<close>

theorem round_trip:
  assumes "build_vector_store splitter model p fs = (Inr (), fs')"
  shows "\<exists>raw index.
           load_txt p fs = Inr raw \<and>
           build_faiss_index (model_encode model (splitter raw)) = Inr index \<and>
           (\<forall>query k. query_vector_store model query k fs' =
                        code_search model index (splitter raw) query k)"
  using assms
proof (cases rule: build_cases)
  case (early e)
  then show ?thesis by simp
next
  case (persist raw index)
  from assms build_persist [of p fs raw model splitter index, OF persist]
  have "fs' = fs\<lparr>files := (files fs)(''vector_db/agri_knowledge/index.faiss'' \<mapsto> FaissIndex index,
                                    ''vector_db/agri_knowledge/chunks.pkl'' \<mapsto> Pickle (splitter raw)),
               dirs := dirs fs \<union> {''vector_db'', ''vector_db/agri_knowledge''}\<rparr>"
    by (simp split: if_splits)
  then have "files fs' ''vector_db/agri_knowledge/index.faiss'' = Some (FaissIndex index)"
    and "files fs' ''vector_db/agri_knowledge/chunks.pkl'' = Some (Pickle (splitter raw))"
    by simp_all
  then have "query_vector_store model query k fs' = code_search model index (splitter raw) query k"
    for query k
    by (rule query_loaded)
  with persist(2,3) show ?thesis by blast
qed

theorem round_trip_witness:
  "build_vector_store demo_splitter demo_model ''notes.txt'' doc_disk = (Inr (), kb_disk) \<and>
   (\<exists>raw index.
      load_txt ''notes.txt'' doc_disk = Inr raw \<and>
      build_faiss_index (model_encode demo_model (demo_splitter raw)) = Inr index \<and>
      (\<forall>query k. query_vector_store demo_model query k kb_disk =
                   code_search demo_model index (demo_splitter raw) query k))"
proof -
  have h: "build_vector_store demo_splitter demo_model ''notes.txt'' doc_disk = (Inr (), kb_disk)"
    by (rule demo_build)
  from round_trip [OF h] h show ?thesis by blast
qed


text \<open>
  Claim C5, as the code has it. A document whose chunking yields no chunk makes
  \<open>build_vector_store\<close> fail, and the disk is left as it was. The code has no check for an
  empty chunk list and no error of that name: the failure is the IndexError of
  \<^verbatim>\<open>embeddings[0]\<close>, raised after the empty batch has been embedded.
\<close>

theorem empty_document_fails:
  assumes "endswith p ''.txt''" and "load_txt p fs = Inr raw" and "splitter raw = []"
  shows "build_vector_store splitter model p fs =
           (Inl (IndexError ''index 0 is out of bounds for axis 0 with size 0''), fs)"
  using assms
  by (simp add: build_vector_store_def model_encode_def build_faiss_index_def)

theorem empty_document_fails_witness:
  "endswith ''empty.txt'' ''.txt'' \<and> load_txt ''empty.txt'' doc_disk = Inr [] \<and>
   demo_splitter [] = [] \<and>
   build_vector_store demo_splitter demo_model ''empty.txt'' doc_disk =
     (Inl (IndexError ''index 0 is out of bounds for axis 0 with size 0''), doc_disk)"
proof -
  have 1: "endswith ''empty.txt'' ''.txt''" by (simp add: endswith_def)
  have 2: "load_txt ''empty.txt'' doc_disk = Inr []" by (simp add: load_txt_def doc_disk_def)
  have 3: "demo_splitter [] = []" by (simp add: demo_splitter_def)
  from empty_document_fails [of "''empty.txt''" doc_disk "[]" demo_splitter demo_model, OF 1 2 3]
    1 2 3
  show ?thesis by simp
qed

text \<open>
  The error of C5 on the blank document of the concrete disk: an IndexError about the
  embedding array, where the claim names an empty-document error.
\<close>

theorem empty_document_counterexample:
  "demo_splitter [] = [] \<and>
   build_vector_store demo_splitter demo_model ''empty.txt'' kb_disk =
     (Inl (IndexError ''index 0 is out of bounds for axis 0 with size 0''), kb_disk)"
  by (simp add: build_vector_store_def endswith_def load_txt_def kb_disk_def
      demo_splitter_def model_encode_def build_faiss_index_def)




text \<open>
  Claim C10. Whatever the document path and whatever the outcome, \<open>build_vector_store\<close>
  changes no file other than \<^verbatim>\<open>index.faiss\<close> and \<^verbatim>\<open>chunks.pkl\<close> under the fixed directory
  \<^verbatim>\<open>vector_db/agri_knowledge\<close>, creates no directory other than that one and its parent,
  and a successful run leaves both artifacts at these two paths.
\<close>

theorem writes_only_the_store:
  assumes "build_vector_store splitter model p fs = (r, fs')"
  shows "(\<forall>q. q \<noteq> ''vector_db/agri_knowledge/index.faiss'' \<and>
              q \<noteq> ''vector_db/agri_knowledge/chunks.pkl'' \<longrightarrow> files fs' q = files fs q) \<and>
         dirs fs \<subseteq> dirs fs' \<and>
         dirs fs' \<subseteq> dirs fs \<union> {''vector_db'', ''vector_db/agri_knowledge''} \<and>
         failing fs' = failing fs \<and>
         (r = Inr () \<longrightarrow>
            (\<exists>index chunks.
               files fs' ''vector_db/agri_knowledge/index.faiss'' = Some (FaissIndex index) \<and>
               files fs' ''vector_db/agri_knowledge/chunks.pkl'' = Some (Pickle chunks)))"
  using assms
proof (cases rule: build_cases)
  case (early e)
  then show ?thesis by auto
next
  case (persist raw index)
  from assms build_persist [of p fs raw model splitter index, OF persist]
  show ?thesis
    by (auto split: if_splits)
qed

theorem writes_only_the_store_witness:
  "build_vector_store demo_splitter demo_model ''notes.txt'' doc_disk = (Inr (), kb_disk) \<and>
   files kb_disk ''notes.txt'' = files doc_disk ''notes.txt'' \<and>
   files kb_disk ''empty.txt'' = files doc_disk ''empty.txt'' \<and>
   dirs kb_disk \<subseteq> dirs doc_disk \<union> {''vector_db'', ''vector_db/agri_knowledge''} \<and>
   failing kb_disk = failing doc_disk \<and>
   (\<exists>index chunks.
      files kb_disk ''vector_db/agri_knowledge/index.faiss'' = Some (FaissIndex index) \<and>
      files kb_disk ''vector_db/agri_knowledge/chunks.pkl'' = Some (Pickle chunks))"
proof -
  have h: "build_vector_store demo_splitter demo_model ''notes.txt'' doc_disk = (Inr (), kb_disk)"
    by (rule demo_build)
  note w = writes_only_the_store [OF h]
  from w have "files kb_disk ''notes.txt'' = files doc_disk ''notes.txt''"
    and "files kb_disk ''empty.txt'' = files doc_disk ''empty.txt''"
    by simp_all
  with w h show ?thesis by blast
qed

subsection \<open>Queries\<close>

lemma kb_disk_files:
  "files kb_disk ''vector_db/agri_knowledge/index.faiss'' = Some (FaissIndex demo_index)"
  "files kb_disk ''vector_db/agri_knowledge/chunks.pkl'' = Some (Pickle demo_chunks)"
  by (simp_all add: kb_disk_def)

lemma demo_facts:
  "length demo_chunks = ntotal demo_index" "length (demo_model query) = dim_d demo_index"
  "ntotal demo_index = 3" "demo_chunks \<noteq> []" "last demo_chunks = ''ccc''"
  by (simp_all add: demo_chunks_def demo_index_def ntotal_def demo_model_def)

text \<open>
  Claim C4 asks that a search with \<open>k\<close> above the number \<open>N\<close> of stored vectors return the
  \<open>N\<close> chunks, each once. The code returns \<open>k\<close> texts: the \<open>N\<close> chunks, then the last chunk of the
  list once for every missing result, since the label \<open>-1\<close> of a missing result passes the
  test \<^verbatim>\<open>i < len(chunks)\<close> and \<^verbatim>\<open>chunks[-1]\<close> is the last chunk.
\<close>

theorem shrink_repeats_last_chunk:
  assumes "files fs ''vector_db/agri_knowledge/index.faiss'' = Some (FaissIndex index)"
    and "files fs ''vector_db/agri_knowledge/chunks.pkl'' = Some (Pickle chunks)"
    and "length chunks = ntotal index"
    and "length (model query) = dim_d index"
    and "0 < ntotal index" and "ntotal index < nat k"
  shows "\<exists>ps. query_vector_store model query k fs =
                Inr (map ((!) chunks) ps @ replicate (nat k - ntotal index) (last chunks)) \<and>
              length ps = ntotal index \<and> set ps = {..<ntotal index}"
proof -
  have k: "1 \<le> k" and c: "chunks \<noteq> []"
    using assms(3,5,6) by auto
  from code_search_result [of model query index k chunks, OF assms(4) k c] obtain ps where
    ps: "length ps = min (nat k) (ntotal index)" "set ps \<subseteq> {..<ntotal index}"
      "ntotal index \<le> nat k \<longrightarrow> set ps = {..<ntotal index}"
      "code_search model index chunks query k =
         Inr (map ((!) chunks) (filter (\<lambda>p. p < length chunks) ps) @
              replicate (nat k - ntotal index) (last chunks))"
    by blast
  have "filter (\<lambda>p. p < length chunks) ps = ps"
    using ps(2) assms(3) by (auto simp: filter_id_conv)
  with ps(4) have "query_vector_store model query k fs =
      Inr (map ((!) chunks) ps @ replicate (nat k - ntotal index) (last chunks))"
    by (simp add: query_loaded [OF assms(1,2)])
  moreover have "length ps = ntotal index" "set ps = {..<ntotal index}"
    using ps(1,3) assms(6) by simp_all
  ultimately show ?thesis by blast
qed

theorem shrink_repeats_last_chunk_witness:
  "query_vector_store demo_model ''xy'' 5 kb_disk = Inr [''a'', ''ccc'', ''bb'', ''ccc'', ''ccc''] \<and>
   (\<exists>ps. query_vector_store demo_model ''xy'' 5 kb_disk =
           Inr (map ((!) demo_chunks) ps @ replicate (nat 5 - ntotal demo_index) (last demo_chunks)) \<and>
         length ps = ntotal demo_index \<and> set ps = {..<ntotal demo_index})"
proof
  show "query_vector_store demo_model ''xy'' 5 kb_disk = Inr [''a'', ''ccc'', ''bb'', ''ccc'', ''ccc'']"
    by (simp add: query_vector_store_def index_path_eq chunk_path_eq os_path_exists_def
      faiss_read_index_def pickle_load_def kb_disk_def code_search_def demo_model_def
      index_search_def demo_index_def add_result_def l2sqr_def demo_chunks_def py_index_def
      numeral_2_eq_2)
  show "\<exists>ps. query_vector_store demo_model ''xy'' 5 kb_disk =
           Inr (map ((!) demo_chunks) ps @ replicate (nat 5 - ntotal demo_index) (last demo_chunks)) \<and>
         length ps = ntotal demo_index \<and> set ps = {..<ntotal demo_index}"
    by (rule shrink_repeats_last_chunk [OF kb_disk_files]) (simp_all add: demo_facts)
qed




text \<open>
  Claim C8. When nothing exists at the path of the index file or at the path of the chunk
  file, \<open>query_vector_store\<close> fails, for every query and every \<open>k\<close>, with the
  FileNotFoundError that says the knowledge base has not been built.
\<close>

theorem knowledge_base_not_found:
  assumes "\<not> os_path_exists ''vector_db/agri_knowledge/index.faiss'' fs \<or>
           \<not> os_path_exists ''vector_db/agri_knowledge/chunks.pkl'' fs"
  shows "query_vector_store model query k fs = Inl (FileNotFoundError kb_not_built)"
  using assms by (auto simp: query_vector_store_def index_path_eq chunk_path_eq)

theorem knowledge_base_not_found_witness:
  "\<not> os_path_exists ''vector_db/agri_knowledge/chunks.pkl'' doc_disk \<and>
   query_vector_store demo_model ''xy'' 3 doc_disk = Inl (FileNotFoundError kb_not_built)"
proof -
  have h: "\<not> os_path_exists ''vector_db/agri_knowledge/chunks.pkl'' doc_disk"
    by (simp add: os_path_exists_def doc_disk_def)
  then have "\<not> os_path_exists ''vector_db/agri_knowledge/index.faiss'' doc_disk \<or>
           \<not> os_path_exists ''vector_db/agri_knowledge/chunks.pkl'' doc_disk" by simp
  from knowledge_base_not_found [OF this] h show ?thesis by simp
qed





end
